theory Spec2Isabelle
  imports Main "HOL-Library.DAList" "HOL-Library.Multiset"
begin

section \<open>The patient service: data model\<close>

text \<open>
  The service of \<^verbatim>\<open>sample-api-hc/patient-service/main.go\<close> keeps patient records in
  one process-wide map and serves four HTTP handlers over it. The embedding below is
  sequential: every handler is a function from the store (and the request's data) to the
  response and the store after the call. The critical section of each handler is one map
  operation between \<^verbatim>\<open>Lock\<close> and \<^verbatim>\<open>Unlock\<close>, so a handler is one atomic step on the
  store; the mutex \<^verbatim>\<open>mu\<close> itself has no counterpart here.
\<close>

subsection \<open>Records and the store\<close>

text \<open>\<^verbatim>\<open>type PatientInfo struct\<close>: five strings.\<close>

record PatientInfo =
  Name :: string
  DateOfBirth :: string
  Gender :: string
  Illness :: string
  Email :: string

text \<open>
  \<^verbatim>\<open>type PatientStore struct { mu sync.RWMutex; patients map[string]PatientInfo }\<close>.
  A Go map is a finite table with one entry per key: an association list with distinct
  keys. Lookup is \<open>DAList.lookup\<close>, the assignment \<^verbatim>\<open>m[k] = v\<close> is \<open>DAList.update\<close>
  (which replaces the entry of an existing key and adds an entry otherwise). Go leaves the
  order of \<^verbatim>\<open>range\<close> over a map unspecified; the model ranges in the order of the
  association list, and the theorems on listings speak of lengths and multisets only.
\<close>

record PatientStore =
  patients :: "(string, PatientInfo) alist"

subsection \<open>\<^verbatim>\<open>strings.ToLower\<close>\<close>

text \<open>
  \<^verbatim>\<open>strings.ToLower\<close> belongs to the Go standard library. On a string of ASCII bytes only
  (every byte below \<^verbatim>\<open>utf8.RuneSelf = 0x80\<close>) it maps the bytes \<^verbatim>\<open>'A'..'Z'\<close> to
  \<^verbatim>\<open>'a'..'z'\<close> and keeps the others. On any other string the result comes from the
  Unicode tables, which are no part of this repository: there the model returns
  \<open>lowerU s\<close>, for a parameter \<open>lowerU\<close> about which nothing is assumed.
\<close>

definition isASCII :: "string \<Rightarrow> bool" where
  "isASCII s = list_all (\<lambda>c. (of_char c :: nat) < 128) s"

definition lowerByte :: "char \<Rightarrow> char" where
  "lowerByte c =
     (if (of_char (CHR ''A'') :: nat) \<le> of_char c \<and> (of_char c :: nat) \<le> of_char (CHR ''Z'')
      then char_of ((of_char c :: nat) + (of_char (CHR ''a'') - of_char (CHR ''A'')))
      else c)"

definition ToLower :: "(string \<Rightarrow> string) \<Rightarrow> string \<Rightarrow> string" where
  "ToLower lowerU s = (if isASCII s then map lowerByte s else lowerU s)"

subsection \<open>Responses\<close>

text \<open>
  What a handler hands to the response writer. \<^verbatim>\<open>json.NewEncoder(w).Encode(v)\<close> is
  called with a record, a slice of records or a \<^verbatim>\<open>map[string]string\<close>; \<^verbatim>\<open>http.Error\<close>
  writes a plain-text message. The wire encoding (JSON text, the line end both writers
  append) is left to the libraries: a body is the list of values written.
\<close>

datatype json_value =
  Patient PatientInfo
  | Patients "PatientInfo list"
  | StringMap "string \<rightharpoonup> string"

datatype payload = PlainText string | JSON json_value

text \<open>
  \<^verbatim>\<open>http.ResponseWriter\<close>: the header map, the status code once it has been written,
  and the body written so far.
\<close>

record ResponseWriter =
  header :: "string \<rightharpoonup> string"
  wroteHeader :: "nat option"
  body :: "payload list"

text \<open>The writer a handler receives: nothing written yet, headers \<open>h\<close> set by middleware.\<close>

definition newWriter :: "(string \<rightharpoonup> string) \<Rightarrow> ResponseWriter" where
  "newWriter h = \<lparr>header = h, wroteHeader = None, body = []\<rparr>"

definition StatusOK :: nat where "StatusOK = 200"
definition StatusCreated :: nat where "StatusCreated = 201"
definition StatusBadRequest :: nat where "StatusBadRequest = 400"
definition StatusNotFound :: nat where "StatusNotFound = 404"

text \<open>\<^verbatim>\<open>w.Header().Set(k, v)\<close>\<close>

definition Header_Set :: "string \<Rightarrow> string \<Rightarrow> ResponseWriter \<Rightarrow> ResponseWriter" where
  "Header_Set k v w = w\<lparr>header := (header w)(k \<mapsto> v)\<rparr>"

text \<open>\<^verbatim>\<open>w.WriteHeader(code)\<close>: the first call fixes the status, a later one is ignored.\<close>

definition WriteHeader :: "nat \<Rightarrow> ResponseWriter \<Rightarrow> ResponseWriter" where
  "WriteHeader code w =
     (case wroteHeader w of None \<Rightarrow> w\<lparr>wroteHeader := Some code\<rparr> | Some _ \<Rightarrow> w)"

text \<open>\<^verbatim>\<open>w.Write\<close>: a write before any \<^verbatim>\<open>WriteHeader\<close> sends status 200 first.\<close>

definition Write :: "payload \<Rightarrow> ResponseWriter \<Rightarrow> ResponseWriter" where
  "Write p w = (let w' = WriteHeader StatusOK w in w'\<lparr>body := body w' @ [p]\<rparr>)"

text \<open>\<^verbatim>\<open>json.NewEncoder(w).Encode(v)\<close>\<close>

definition Encode :: "json_value \<Rightarrow> ResponseWriter \<Rightarrow> ResponseWriter" where
  "Encode v w = Write (JSON v) w"

text \<open>
  \<^verbatim>\<open>http.Error(w, msg, code)\<close> of \<^verbatim>\<open>net/http\<close>: the plain-text content type and the
  no-sniff header, the status, then the message. (It also deletes headers that describe a
  body other than the message; no handler here sets one of them.)
\<close>

definition http_Error :: "ResponseWriter \<Rightarrow> string \<Rightarrow> nat \<Rightarrow> ResponseWriter" where
  "http_Error w msg code =
     Write (PlainText msg)
       (WriteHeader code
         (Header_Set ''X-Content-Type-Options'' ''nosniff''
           (Header_Set ''Content-Type'' ''text/plain; charset=utf-8'' w)))"

section \<open>Start-up\<close>

text \<open>The slice \<^verbatim>\<open>samplePatients\<close> of \<^verbatim>\<open>init\<close>.\<close>

definition samplePatients :: "PatientInfo list" where
  "samplePatients =
    [\<lparr>Name = ''Nobody Knows'', DateOfBirth = ''1985-03-15'', Gender = ''Male'',
       Illness = ''Hypertension'', Email = ''nobody.knows@email.com''\<rparr>,
     \<lparr>Name = ''Johnson Fake'', DateOfBirth = ''1990-07-22'', Gender = ''Female'',
       Illness = ''Type 2 Diabetes'', Email = ''johnson.fake@email.com''\<rparr>,
     \<lparr>Name = ''Michael Chen'', DateOfBirth = ''1978-11-08'', Gender = ''Male'',
       Illness = ''Asthma'', Email = ''michael.chen@email.com''\<rparr>,
     \<lparr>Name = ''Emily Lor'', DateOfBirth = ''1995-02-14'', Gender = ''Female'',
       Illness = ''Migraine'', Email = ''emily.lor@email.com''\<rparr>]"

text \<open>
  The loop \<^verbatim>\<open>for _, patient := range samplePatients\<close> of \<^verbatim>\<open>init\<close>, over any slice and
  from any store: each record is assigned under the lowercase of its name.
\<close>

primrec seed :: "(string \<Rightarrow> string) \<Rightarrow> PatientInfo list \<Rightarrow> PatientStore \<Rightarrow> PatientStore" where
  "seed lowerU [] store = store"
| "seed lowerU (patient # rest) store =
     seed lowerU rest
       (store\<lparr>patients := DAList.update (ToLower lowerU (Name patient)) patient (patients store)\<rparr>)"

text \<open>\<^verbatim>\<open>func init()\<close>: the empty map, then the loop over the samples.\<close>

definition init :: "(string \<Rightarrow> string) \<Rightarrow> PatientStore" where
  "init lowerU = seed lowerU samplePatients \<lparr>patients = DAList.empty\<rparr>"

section \<open>The handlers\<close>

text \<open>
  Each handler takes the response writer, the part of the request it reads, and the
  store; it returns the writer and the store after the call. The global \<^verbatim>\<open>store\<close> of
  the source is this explicit argument.
\<close>

text \<open>
  \<^verbatim>\<open>getPatientByName\<close>; \<open>name\<close> is \<^verbatim>\<open>mux.Vars(r)["name"]\<close>.
\<close>

definition getPatientByName ::
  "(string \<Rightarrow> string) \<Rightarrow> ResponseWriter \<Rightarrow> string \<Rightarrow> PatientStore \<Rightarrow> ResponseWriter \<times> PatientStore"
where
  "getPatientByName lowerU w name store =
     (case DAList.lookup (patients store) (ToLower lowerU name) of
        None \<Rightarrow> (http_Error w ''Patient not found'' StatusNotFound, store)
      | Some patient \<Rightarrow>
          (Encode (Patient patient) (Header_Set ''Content-Type'' ''application/json'' w), store))"

text \<open>
  The outcome of \<^verbatim>\<open>json.NewDecoder(r.Body).Decode(&patient)\<close>: an error, or the record
  the decoder filled in (a field the body does not give stays the empty string).
\<close>

datatype decoded = DecodeError | Decoded PatientInfo

text \<open>\<^verbatim>\<open>createPatient\<close>\<close>

definition createPatient ::
  "(string \<Rightarrow> string) \<Rightarrow> ResponseWriter \<Rightarrow> decoded \<Rightarrow> PatientStore \<Rightarrow> ResponseWriter \<times> PatientStore"
where
  "createPatient lowerU w d store =
     (case d of
        DecodeError \<Rightarrow> (http_Error w ''Invalid request body'' StatusBadRequest, store)
      | Decoded patient \<Rightarrow>
          if Name patient = [] \<or> DateOfBirth patient = [] \<or> Email patient = []
          then (http_Error w ''Name, date of birth, and email are required'' StatusBadRequest,
                store)
          else
            (Encode (Patient patient)
               (WriteHeader StatusCreated (Header_Set ''Content-Type'' ''application/json'' w)),
             store\<lparr>patients :=
               DAList.update (ToLower lowerU (Name patient)) patient (patients store)\<rparr>))"

text \<open>
  The loop of \<^verbatim>\<open>listAllPatients\<close>: \<^verbatim>\<open>patients = append(patients, patient)\<close> for every
  entry of the map.
\<close>

primrec appendEach :: "PatientInfo list \<Rightarrow> (string \<times> PatientInfo) list \<Rightarrow> PatientInfo list" where
  "appendEach acc [] = acc"
| "appendEach acc (entry # rest) = appendEach (acc @ [snd entry]) rest"

text \<open>\<^verbatim>\<open>listAllPatients\<close>\<close>

definition listAllPatients :: "ResponseWriter \<Rightarrow> PatientStore \<Rightarrow> ResponseWriter \<times> PatientStore" where
  "listAllPatients w store =
     (let ps = appendEach [] (DAList.impl_of (patients store))
      in (Encode (Patients ps) (Header_Set ''Content-Type'' ''application/json'' w), store))"

text \<open>
  \<^verbatim>\<open>healthCheck\<close>; \<open>now\<close> is the string \<^verbatim>\<open>time.Now().Format(time.RFC3339)\<close>, the
  reading of the server's clock as the library formats it.
\<close>

definition healthCheck :: "string \<Rightarrow> ResponseWriter \<Rightarrow> PatientStore \<Rightarrow> ResponseWriter \<times> PatientStore" where
  "healthCheck now w store =
     (Encode (StringMap [''status'' \<mapsto> ''healthy'', ''time'' \<mapsto> now])
        (Header_Set ''Content-Type'' ''application/json'' w),
      store)"

section \<open>Store states and the key invariant\<close>

text \<open>
  The invariant of the store: every entry is filed under the lowercase form of the name
  of its record. It is checked entry by entry; \<open>keyedByLowerName_lookup\<close> below gives
  its reading by lookup.
\<close>

definition keyedByLowerName :: "(string \<Rightarrow> string) \<Rightarrow> PatientStore \<Rightarrow> bool" where
  "keyedByLowerName lowerU store =
     list_all (\<lambda>entry. fst entry = ToLower lowerU (Name (snd entry)))
       (DAList.impl_of (patients store))"

text \<open>
  The store states of a running service: the state \<^verbatim>\<open>init\<close> leaves, and every state
  one of the four handlers leaves when called, with any request, in such a state.
\<close>

inductive reachable :: "(string \<Rightarrow> string) \<Rightarrow> PatientStore \<Rightarrow> bool"
  for lowerU :: "string \<Rightarrow> string"
where
  started: "reachable lowerU (init lowerU)"
| after_get:
    "reachable lowerU store \<Longrightarrow> reachable lowerU (snd (getPatientByName lowerU w name store))"
| after_create:
    "reachable lowerU store \<Longrightarrow> reachable lowerU (snd (createPatient lowerU w d store))"
| after_list:
    "reachable lowerU store \<Longrightarrow> reachable lowerU (snd (listAllPatients w store))"
| after_health:
    "reachable lowerU store \<Longrightarrow> reachable lowerU (snd (healthCheck now w store))"

section \<open>Casing of names\<close>

text \<open>
  The specification speaks of the same name in another casing. For ASCII letters this is a
  relation on the strings themselves, stated without the key function: two bytes are the
  same letter when they are equal, or one is a capital \<^verbatim>\<open>'A'..'Z'\<close> and the other is
  the small letter 32 above it; two names are the same name in some casing when they are
  so byte by byte.
\<close>

definition capitalASCII :: "char \<Rightarrow> bool" where
  "capitalASCII c \<longleftrightarrow>
     (of_char (CHR ''A'') :: nat) \<le> of_char c \<and> (of_char c :: nat) \<le> of_char (CHR ''Z'')"

definition sameLetter :: "char \<Rightarrow> char \<Rightarrow> bool" where
  "sameLetter a b \<longleftrightarrow>
     a = b
     \<or> (capitalASCII a \<and> (of_char b :: nat) = of_char a + 32)
     \<or> (capitalASCII b \<and> (of_char a :: nat) = of_char b + 32)"

definition sameNameAnyCasing :: "string \<Rightarrow> string \<Rightarrow> bool" where
  "sameNameAnyCasing s t = list_all2 sameLetter s t"

subsection \<open>Greek letters in the Go library\<close>

text \<open>
  Outside ASCII, \<^verbatim>\<open>strings.ToLower\<close> and \<^verbatim>\<open>strings.ToUpper\<close> map a string rune by
  rune with the simple case mappings of the Unicode tables. The two functions below are
  these mappings on UTF-8 strings whose runes are ASCII characters or the Greek letters
  U+0391..U+03A9 and U+03B1..U+03C9 (two bytes each, with lead byte \<^verbatim>\<open>CE\<close> or \<^verbatim>\<open>CF\<close>);
  they are the instance of the parameter \<open>lowerU\<close> the Greek examples run with, and say
  nothing on other strings. In the tables the capitals U+0391..U+039F have their small
  letters at U+03B1..U+03BF (\<^verbatim>\<open>CE 91..9F\<close> and \<^verbatim>\<open>CE B1..BF\<close>), the capitals
  U+03A0..U+03A9 at U+03C0..U+03C9 (\<^verbatim>\<open>CE A0..A9\<close> and \<^verbatim>\<open>CF 80..89\<close>; U+03A2 is not
  assigned). The final sigma U+03C2 (\<^verbatim>\<open>CF 82\<close>) is a small letter, kept by
  \<^verbatim>\<open>ToLower\<close>; its capital is the sigma U+03A3 (\<^verbatim>\<open>CE A3\<close>), whose small letter is
  U+03C3 (\<^verbatim>\<open>CF 83\<close>).
\<close>

fun lowerGreek :: "string \<Rightarrow> string" where
  "lowerGreek (a # b # s) =
     (if a = CHR 0xCE \<and> (0x91 :: nat) \<le> of_char b \<and> (of_char b :: nat) \<le> 0x9F
        then CHR 0xCE # char_of ((of_char b :: nat) + 0x20) # lowerGreek s
      else if a = CHR 0xCE \<and> (0xA0 :: nat) \<le> of_char b \<and> (of_char b :: nat) \<le> 0xA9
                \<and> b \<noteq> CHR 0xA2
        then CHR 0xCF # char_of ((of_char b :: nat) - 0x20) # lowerGreek s
      else if a = CHR 0xCE \<or> a = CHR 0xCF
        then a # b # lowerGreek s
      else lowerByte a # lowerGreek (b # s))"
| "lowerGreek [a] = [lowerByte a]"
| "lowerGreek [] = []"

definition upperByte :: "char \<Rightarrow> char" where
  "upperByte c =
     (if (of_char (CHR ''a'') :: nat) \<le> of_char c \<and> (of_char c :: nat) \<le> of_char (CHR ''z'')
      then char_of ((of_char c :: nat) - (of_char (CHR ''a'') - of_char (CHR ''A'')))
      else c)"

fun upperGreek :: "string \<Rightarrow> string" where
  "upperGreek (a # b # s) =
     (if a = CHR 0xCE \<and> (0xB1 :: nat) \<le> of_char b \<and> (of_char b :: nat) \<le> 0xBF
        then CHR 0xCE # char_of ((of_char b :: nat) - 0x20) # upperGreek s
      else if a = CHR 0xCF \<and> b = CHR 0x82
        then CHR 0xCE # CHR 0xA3 # upperGreek s
      else if a = CHR 0xCF \<and> (0x80 :: nat) \<le> of_char b \<and> (of_char b :: nat) \<le> 0x89
        then CHR 0xCE # char_of ((of_char b :: nat) + 0x20) # upperGreek s
      else if a = CHR 0xCE \<or> a = CHR 0xCF
        then a # b # upperGreek s
      else upperByte a # upperGreek (b # s))"
| "upperGreek [a] = [upperByte a]"
| "upperGreek [] = []"

text \<open>
  The name \<^verbatim>\<open>Nikos\<close> in Greek letters (capital nu, iota, kappa, omicron, final sigma)
  and the same name in capitals (nu, iota, kappa, omicron, sigma).
\<close>

abbreviation nikos :: string where
  "nikos \<equiv> [CHR 0xCE, CHR 0x9D, CHR 0xCE, CHR 0xB9, CHR 0xCE, CHR 0xBA, CHR 0xCE, CHR 0xBF,
            CHR 0xCF, CHR 0x82]"

abbreviation NIKOS :: string where
  "NIKOS \<equiv> [CHR 0xCE, CHR 0x9D, CHR 0xCE, CHR 0x99, CHR 0xCE, CHR 0x9A, CHR 0xCE, CHR 0x9F,
            CHR 0xCE, CHR 0xA3]"

text \<open>Two patients of that name, one written each way.\<close>

abbreviation nikosPatient :: PatientInfo where
  "nikosPatient \<equiv>
     \<lparr>Name = nikos, DateOfBirth = ''1990-01-01'', Gender = [], Illness = [], Email = ''n@k''\<rparr>"

abbreviation NIKOSPatient :: PatientInfo where
  "NIKOSPatient \<equiv>
     \<lparr>Name = NIKOS, DateOfBirth = ''2000-02-02'', Gender = [], Illness = [], Email = ''N@K''\<rparr>"

section \<open>Auxiliary facts\<close>

lemmas writer_defs =
  newWriter_def Header_Set_def WriteHeader_def Write_def Encode_def http_Error_def
  StatusOK_def StatusCreated_def StatusBadRequest_def StatusNotFound_def

lemma appendEach_eq: "appendEach acc es = acc @ map snd es"
  by (induction es arbitrary: acc) simp_all

lemma listAllPatients_body:
  "body (fst (listAllPatients (newWriter h) store)) =
     [JSON (Patients (map snd (DAList.impl_of (patients store))))]"
  by (simp add: listAllPatients_def appendEach_eq writer_defs)

lemma list_all_update:
  "list_all P al \<Longrightarrow> P (k, v) \<Longrightarrow> list_all P (AList.update k v al)"
  by (induction al) auto

lemma length_update_present:
  "k \<in> fst ` set al \<Longrightarrow> length (AList.update k v al) = length al"
  by (induction al) auto

lemma lookup_Some_key:
  "DAList.lookup al k = Some v \<Longrightarrow> k \<in> fst ` set (DAList.impl_of al)"
  by (auto simp: DAList.lookup.rep_eq dest!: map_of_SomeD intro: rev_image_eqI)

text \<open>
  The sample names are ASCII, so the store \<^verbatim>\<open>init\<close> builds does not depend on the
  Unicode tables: four entries, one per sample, under four different keys.
\<close>

lemma init_entries:
  "DAList.impl_of (patients (init lowerU)) =
     map (\<lambda>p. (ToLower lowerU (Name p), p)) samplePatients"
  by code_simp

lemma init_keys:
  "map fst (DAList.impl_of (patients (init lowerU))) =
     [''nobody knows'', ''johnson fake'', ''michael chen'', ''emily lor'']"
  by code_simp

subsection \<open>Casing and the lowercase form\<close>

lemma sameLetter_lowerByte: "sameLetter a b \<Longrightarrow> lowerByte a = lowerByte b"
  unfolding sameLetter_def capitalASCII_def lowerByte_def
  by auto (metis char_of_char)+

lemma sameLetter_ascii:
  "sameLetter a b \<Longrightarrow> (of_char b :: nat) < 128 \<Longrightarrow> (of_char a :: nat) < 128"
  unfolding sameLetter_def capitalASCII_def by auto

lemma sameNameAnyCasing_lower:
  "sameNameAnyCasing s t \<Longrightarrow> map lowerByte s = map lowerByte t"
  unfolding sameNameAnyCasing_def
  by (induction rule: list_all2_induct) (simp_all add: sameLetter_lowerByte)

lemma sameNameAnyCasing_ascii:
  "sameNameAnyCasing s t \<Longrightarrow> isASCII t \<Longrightarrow> isASCII s"
  unfolding sameNameAnyCasing_def isASCII_def
  by (induction rule: list_all2_induct) (auto dest: sameLetter_ascii)

lemma ToLower_ascii: "isASCII t \<Longrightarrow> ToLower lowerU t = map lowerByte t"
  by (simp add: ToLower_def)

text \<open>
  An ASCII name and the same name in any casing have one lowercase form, whatever the
  Unicode tables say.
\<close>

lemma ToLower_any_casing:
  "isASCII t \<Longrightarrow> sameNameAnyCasing s t \<Longrightarrow> ToLower lowerU s = ToLower lowerU t"
  by (simp add: ToLower_def sameNameAnyCasing_ascii sameNameAnyCasing_lower)

text \<open>The capitals of a name and its small letters are casings of it.\<close>

lemma sameNameAnyCasing_capitals: "sameNameAnyCasing (map upperByte s) s"
  unfolding sameNameAnyCasing_def
  by (induction s) (auto simp: sameLetter_def capitalASCII_def upperByte_def)

lemma sameNameAnyCasing_small: "sameNameAnyCasing (map lowerByte s) s"
  unfolding sameNameAnyCasing_def
  by (induction s) (auto simp: sameLetter_def capitalASCII_def lowerByte_def)

subsection \<open>The invariant, operation by operation\<close>

lemma keyedByLowerName_lookup:
  "keyedByLowerName lowerU store \<longleftrightarrow>
   (\<forall>k p. DAList.lookup (patients store) k = Some p \<longrightarrow> k = ToLower lowerU (Name p))"
  by (auto simp: keyedByLowerName_def DAList.lookup.rep_eq list_all_iff dest: map_of_SomeD)

lemma keyedByLowerName_update:
  "keyedByLowerName lowerU store \<Longrightarrow>
   keyedByLowerName lowerU
     (store\<lparr>patients := DAList.update (ToLower lowerU (Name p)) p (patients store)\<rparr>)"
  by (simp add: keyedByLowerName_def DAList.update.rep_eq list_all_update)

lemma keyedByLowerName_seed:
  "keyedByLowerName lowerU store \<Longrightarrow> keyedByLowerName lowerU (seed lowerU ps store)"
  by (induction ps arbitrary: store) (simp_all add: keyedByLowerName_update)

lemma keyedByLowerName_init: "keyedByLowerName lowerU (init lowerU)"
  unfolding init_def
  by (rule keyedByLowerName_seed) (simp add: keyedByLowerName_def DAList.empty.rep_eq)

lemma createPatient_store:
  "snd (createPatient lowerU w d store) = store \<or>
   (\<exists>p. snd (createPatient lowerU w d store) =
      store\<lparr>patients := DAList.update (ToLower lowerU (Name p)) p (patients store)\<rparr>)"
  by (cases d) (auto simp: createPatient_def)

lemma keyedByLowerName_createPatient:
  "keyedByLowerName lowerU store \<Longrightarrow>
   keyedByLowerName lowerU (snd (createPatient lowerU w d store))"
  using createPatient_store [of lowerU w d store] by (auto simp: keyedByLowerName_update)

lemma reachable_keyed: "reachable lowerU store \<Longrightarrow> keyedByLowerName lowerU store"
proof (induction rule: reachable.induct)
  case started
  show ?case by (rule keyedByLowerName_init)
next
  case (after_get store w name)
  then show ?case by (simp add: getPatientByName_def split: option.split)
next
  case (after_create store w d)
  then show ?case by (simp add: keyedByLowerName_createPatient)
next
  case (after_list store w)
  then show ?case by (simp add: listAllPatients_def)
next
  case (after_health store now w)
  then show ?case by (simp add: healthCheck_def)
qed

section \<open>Create, then get by name\<close>

text \<open>
  C1, as the code has it. A create whose decoded record has a non-empty name, date of
  birth and email is followed by a get-by-name. The get answers 200 with the record
  exactly as it was submitted, the casing of its name field included, whenever
  \<^verbatim>\<open>strings.ToLower\<close> gives the name asked for and the record's name the same
  lowercase form; when the record's name is ASCII, that is so for the name in any
  casing of its letters. Only the key is normalised: the record is filed under the
  lowercase form of its name, for an ASCII name the name with \<^verbatim>\<open>'A'..'Z'\<close> replaced by
  \<^verbatim>\<open>'a'..'z'\<close>.
\<close>

theorem create_then_get_by_name_any_casing:
  assumes "Name p \<noteq> []" and "DateOfBirth p \<noteq> []" and "Email p \<noteq> []"
    and "(isASCII (Name p) \<and> sameNameAnyCasing name (Name p))
         \<or> ToLower lowerU name = ToLower lowerU (Name p)"
  shows "wroteHeader (fst (getPatientByName lowerU (newWriter h) name
            (snd (createPatient lowerU w (Decoded p) store)))) = Some 200
       \<and> body (fst (getPatientByName lowerU (newWriter h) name
            (snd (createPatient lowerU w (Decoded p) store)))) = [JSON (Patient p)]
       \<and> DAList.lookup (patients (snd (createPatient lowerU w (Decoded p) store)))
            (ToLower lowerU (Name p)) = Some p
       \<and> (isASCII (Name p) \<longrightarrow>
            DAList.lookup (patients (snd (createPatient lowerU w (Decoded p) store)))
              (map lowerByte (Name p)) = Some p)"
proof -
  have key: "ToLower lowerU name = ToLower lowerU (Name p)"
    using assms(4) by (auto simp: ToLower_any_casing)
  have st: "snd (createPatient lowerU w (Decoded p) store)
      = store\<lparr>patients := DAList.update (ToLower lowerU (Name p)) p (patients store)\<rparr>"
    using assms(1-3) by (simp add: createPatient_def)
  have "DAList.lookup (patients (snd (createPatient lowerU w (Decoded p) store)))
          (map lowerByte (Name p)) = Some p"
    if "isASCII (Name p)"
    using that by (simp add: st ToLower_ascii)
  then show ?thesis
    by (simp add: st key getPatientByName_def writer_defs)
qed

text \<open>
  The scenario of the specification: Ada Lovelace is created in the store \<^verbatim>\<open>init\<close>
  leaves and asked for with the case of every letter turned.
\<close>

theorem create_then_get_by_name_any_casing_witness:
  "Name \<lparr>Name = ''Ada Lovelace'', DateOfBirth = ''1815-12-10'', Gender = ''Female'',
          Illness = ''None'', Email = ''ada@example.com''\<rparr> \<noteq> []
   \<and> DateOfBirth \<lparr>Name = ''Ada Lovelace'', DateOfBirth = ''1815-12-10'', Gender = ''Female'',
          Illness = ''None'', Email = ''ada@example.com''\<rparr> \<noteq> []
   \<and> Email \<lparr>Name = ''Ada Lovelace'', DateOfBirth = ''1815-12-10'', Gender = ''Female'',
          Illness = ''None'', Email = ''ada@example.com''\<rparr> \<noteq> []
   \<and> isASCII ''Ada Lovelace''
   \<and> sameNameAnyCasing ''aDA lOVELACE'' ''Ada Lovelace''
   \<and> wroteHeader (fst (getPatientByName id (newWriter Map.empty) ''aDA lOVELACE''
        (snd (createPatient id (newWriter Map.empty)
          (Decoded \<lparr>Name = ''Ada Lovelace'', DateOfBirth = ''1815-12-10'', Gender = ''Female'',
             Illness = ''None'', Email = ''ada@example.com''\<rparr>)
          (init id))))) = Some 200
   \<and> body (fst (getPatientByName id (newWriter Map.empty) ''aDA lOVELACE''
        (snd (createPatient id (newWriter Map.empty)
          (Decoded \<lparr>Name = ''Ada Lovelace'', DateOfBirth = ''1815-12-10'', Gender = ''Female'',
             Illness = ''None'', Email = ''ada@example.com''\<rparr>)
          (init id)))))
      = [JSON (Patient \<lparr>Name = ''Ada Lovelace'', DateOfBirth = ''1815-12-10'', Gender = ''Female'',
             Illness = ''None'', Email = ''ada@example.com''\<rparr>)]
   \<and> DAList.lookup
        (patients (snd (createPatient id (newWriter Map.empty)
          (Decoded \<lparr>Name = ''Ada Lovelace'', DateOfBirth = ''1815-12-10'', Gender = ''Female'',
             Illness = ''None'', Email = ''ada@example.com''\<rparr>)
          (init id))))
        ''ada lovelace''
      = Some \<lparr>Name = ''Ada Lovelace'', DateOfBirth = ''1815-12-10'', Gender = ''Female'',
             Illness = ''None'', Email = ''ada@example.com''\<rparr>"
proof -
  have a: "isASCII ''Ada Lovelace''"
    by code_simp
  have c: "sameNameAnyCasing ''aDA lOVELACE'' ''Ada Lovelace''"
    by code_simp
  have l: "map lowerByte ''Ada Lovelace'' = ''ada lovelace''"
    by code_simp
  show ?thesis
    using a c l
      create_then_get_by_name_any_casing [of
        "\<lparr>Name = ''Ada Lovelace'', DateOfBirth = ''1815-12-10'', Gender = ''Female'',
             Illness = ''None'', Email = ''ada@example.com''\<rparr>"
        "''aDA lOVELACE''" id Map.empty "newWriter Map.empty" "init id"]
    by simp
qed

text \<open>
  Outside ASCII the same name in another casing can have another lowercase form, and
  then the claim as the specification words it fails. With the Greek letters mapped as
  the Go library maps them, a patient created under the name Nikos (ending in the final
  sigma) is found under that name, but asked for in capitals the answer is 404: the
  capital sigma is lowered to the sigma U+03C3, not to the final sigma of the key.
\<close>

theorem create_then_get_by_name_counterexample:
  "upperGreek nikos = NIKOS
   \<and> wroteHeader (fst (getPatientByName lowerGreek (newWriter Map.empty) nikos
        (snd (createPatient lowerGreek (newWriter Map.empty) (Decoded nikosPatient)
          (init lowerGreek))))) = Some 200
   \<and> wroteHeader (fst (getPatientByName lowerGreek (newWriter Map.empty) NIKOS
        (snd (createPatient lowerGreek (newWriter Map.empty) (Decoded nikosPatient)
          (init lowerGreek))))) = Some 404
   \<and> body (fst (getPatientByName lowerGreek (newWriter Map.empty) NIKOS
        (snd (createPatient lowerGreek (newWriter Map.empty) (Decoded nikosPatient)
          (init lowerGreek))))) = [PlainText ''Patient not found'']"
proof -
  have up: "upperGreek nikos = NIKOS"
    by code_simp
  have keys: "ToLower lowerGreek nikos \<noteq> ToLower lowerGreek NIKOS"
    by code_simp
  have "DAList.lookup (patients (init lowerGreek)) (ToLower lowerGreek NIKOS) = None"
    by code_simp
  then show ?thesis
    using up keys by (simp add: createPatient_def getPatientByName_def writer_defs)
qed

section \<open>Create under a name already present\<close>

text \<open>
  C2, as the code has it. In every store state of the running service, take a valid
  create whose record's name has the same \<^verbatim>\<open>strings.ToLower\<close> form as the name of a
  record already stored; when the stored name is ASCII, that is every name equal to it
  up to the case of its letters. The create overwrites that record: the key the old
  record was filed under is the normalised key of the new one, the value under it is
  the new record, and list returns no more records after the create than before it.
\<close>

theorem create_same_name_overwrites_any_casing:
  assumes "reachable lowerU store"
    and "Name p \<noteq> []" and "DateOfBirth p \<noteq> []" and "Email p \<noteq> []"
    and "DAList.lookup (patients store) k = Some old"
    and "(isASCII (Name old) \<and> sameNameAnyCasing (Name p) (Name old))
         \<or> ToLower lowerU (Name p) = ToLower lowerU (Name old)"
  shows "k = ToLower lowerU (Name p)
       \<and> DAList.lookup (patients (snd (createPatient lowerU w (Decoded p) store))) k = Some p
       \<and> (\<exists>before after.
            body (fst (listAllPatients (newWriter h) store)) = [JSON (Patients before)]
          \<and> body (fst (listAllPatients (newWriter h')
               (snd (createPatient lowerU w (Decoded p) store)))) = [JSON (Patients after)]
          \<and> length after \<le> length before)"
proof -
  let ?key = "ToLower lowerU (Name p)"
  have same: "ToLower lowerU (Name p) = ToLower lowerU (Name old)"
    using assms(6) by (auto simp: ToLower_any_casing)
  have "keyedByLowerName lowerU store"
    using assms(1) by (rule reachable_keyed)
  then have k: "k = ?key"
    using assms(5) same by (simp add: keyedByLowerName_lookup)
  then have "?key \<in> fst ` set (DAList.impl_of (patients store))"
    using assms(5) by (simp add: lookup_Some_key)
  then have len: "length (DAList.impl_of (DAList.update ?key p (patients store)))
      = length (DAList.impl_of (patients store))"
    by (simp add: DAList.update.rep_eq length_update_present)
  have st: "snd (createPatient lowerU w (Decoded p) store)
      = store\<lparr>patients := DAList.update ?key p (patients store)\<rparr>"
    using assms(2-4) by (simp add: createPatient_def)
  show ?thesis
    by (simp add: st k listAllPatients_body len)
qed

text \<open>
  In the store \<^verbatim>\<open>init\<close> leaves, a record named NOBODY KNOWS replaces the sample
  Nobody Knows.
\<close>

theorem create_same_name_overwrites_any_casing_witness:
  "reachable id (init id)
   \<and> Name \<lparr>Name = ''NOBODY KNOWS'', DateOfBirth = ''2000-01-01'', Gender = [],
             Illness = [], Email = ''n@k''\<rparr> \<noteq> []
   \<and> DateOfBirth \<lparr>Name = ''NOBODY KNOWS'', DateOfBirth = ''2000-01-01'', Gender = [],
             Illness = [], Email = ''n@k''\<rparr> \<noteq> []
   \<and> Email \<lparr>Name = ''NOBODY KNOWS'', DateOfBirth = ''2000-01-01'', Gender = [],
             Illness = [], Email = ''n@k''\<rparr> \<noteq> []
   \<and> Name (hd samplePatients) = ''Nobody Knows''
   \<and> DAList.lookup (patients (init id)) ''nobody knows'' = Some (hd samplePatients)
   \<and> isASCII ''Nobody Knows''
   \<and> sameNameAnyCasing ''NOBODY KNOWS'' ''Nobody Knows''
   \<and> ToLower id ''NOBODY KNOWS'' = ''nobody knows''
   \<and> DAList.lookup
        (patients (snd (createPatient id (newWriter Map.empty)
          (Decoded \<lparr>Name = ''NOBODY KNOWS'', DateOfBirth = ''2000-01-01'', Gender = [],
             Illness = [], Email = ''n@k''\<rparr>)
          (init id))))
        ''nobody knows''
      = Some \<lparr>Name = ''NOBODY KNOWS'', DateOfBirth = ''2000-01-01'', Gender = [],
             Illness = [], Email = ''n@k''\<rparr>
   \<and> (\<exists>before after.
        body (fst (listAllPatients (newWriter Map.empty) (init id))) = [JSON (Patients before)]
      \<and> body (fst (listAllPatients (newWriter Map.empty)
           (snd (createPatient id (newWriter Map.empty)
             (Decoded \<lparr>Name = ''NOBODY KNOWS'', DateOfBirth = ''2000-01-01'', Gender = [],
             Illness = [], Email = ''n@k''\<rparr>)
             (init id)))))
          = [JSON (Patients after)]
      \<and> length after \<le> length before)"
proof -
  have n: "Name (hd samplePatients) = ''Nobody Knows''"
    by (simp add: samplePatients_def)
  have l: "DAList.lookup (patients (init id)) ''nobody knows'' = Some (hd samplePatients)"
    by code_simp
  have a: "isASCII ''Nobody Knows''"
    by code_simp
  have c: "sameNameAnyCasing ''NOBODY KNOWS'' ''Nobody Knows''"
    by code_simp
  have low: "ToLower id ''NOBODY KNOWS'' = ''nobody knows''"
    by code_simp
  show ?thesis
    using n l a c low reachable.started [of id]
      create_same_name_overwrites_any_casing [of id "init id"
        "\<lparr>Name = ''NOBODY KNOWS'', DateOfBirth = ''2000-01-01'', Gender = [],
             Illness = [], Email = ''n@k''\<rparr>"
        "''nobody knows''" "hd samplePatients" "newWriter Map.empty" Map.empty Map.empty]
    by simp
qed

text \<open>
  Outside ASCII two names equal up to casing can have two lowercase forms, and then the
  claim as the specification words it fails. With the Greek letters mapped as the Go
  library maps them, Nikos is created and then the same name in capitals: the second
  create files its record under another key, the first record stays where it was, and
  list returns five records before the second create and six after it.
\<close>

theorem create_same_name_overwrites_counterexample:
  "reachable lowerGreek
     (snd (createPatient lowerGreek (newWriter Map.empty) (Decoded nikosPatient)
       (init lowerGreek)))
   \<and> upperGreek (Name nikosPatient) = Name NIKOSPatient
   \<and> DAList.lookup
        (patients (snd (createPatient lowerGreek (newWriter Map.empty) (Decoded nikosPatient)
          (init lowerGreek))))
        (ToLower lowerGreek nikos)
      = Some nikosPatient
   \<and> body (fst (listAllPatients (newWriter Map.empty)
        (snd (createPatient lowerGreek (newWriter Map.empty) (Decoded nikosPatient)
          (init lowerGreek)))))
      = [JSON (Patients (samplePatients @ [nikosPatient]))]
   \<and> body (fst (listAllPatients (newWriter Map.empty)
        (snd (createPatient lowerGreek (newWriter Map.empty) (Decoded NIKOSPatient)
          (snd (createPatient lowerGreek (newWriter Map.empty) (Decoded nikosPatient)
            (init lowerGreek)))))))
      = [JSON (Patients (samplePatients @ [nikosPatient, NIKOSPatient]))]
   \<and> DAList.lookup
        (patients (snd (createPatient lowerGreek (newWriter Map.empty) (Decoded NIKOSPatient)
          (snd (createPatient lowerGreek (newWriter Map.empty) (Decoded nikosPatient)
            (init lowerGreek))))))
        (ToLower lowerGreek nikos)
      = Some nikosPatient"
proof -
  let ?store = "snd (createPatient lowerGreek (newWriter Map.empty) (Decoded nikosPatient)
                  (init lowerGreek))"
  let ?store' = "snd (createPatient lowerGreek (newWriter Map.empty) (Decoded NIKOSPatient)
                   ?store)"
  have r: "reachable lowerGreek ?store"
    by (rule reachable.after_create) (rule reachable.started)
  have up: "upperGreek nikos = NIKOS"
    by code_simp
  have keys: "ToLower lowerGreek NIKOS \<noteq> ToLower lowerGreek nikos"
    by code_simp
  have st: "?store = (init lowerGreek)\<lparr>patients :=
      DAList.update (ToLower lowerGreek nikos) nikosPatient (patients (init lowerGreek))\<rparr>"
    by (simp add: createPatient_def)
  have st': "?store' = ?store\<lparr>patients :=
      DAList.update (ToLower lowerGreek NIKOS) NIKOSPatient (patients ?store)\<rparr>"
    by (simp add: createPatient_def)
  have l1: "map snd (DAList.impl_of (patients ?store)) = samplePatients @ [nikosPatient]"
    unfolding st by code_simp
  have l2: "map snd (DAList.impl_of (patients ?store'))
      = samplePatients @ [nikosPatient, NIKOSPatient]"
    unfolding st' st by code_simp
  have k1: "DAList.lookup (patients ?store) (ToLower lowerGreek nikos) = Some nikosPatient"
    by (simp add: st)
  have k2: "DAList.lookup (patients ?store') (ToLower lowerGreek nikos) = Some nikosPatient"
    unfolding st' using keys k1 by simp
  show ?thesis
    unfolding listAllPatients_body
    using r up l1 l2 k1 k2 by simp
qed

section \<open>The key invariant\<close>

text \<open>
  C3. The invariant that each key is the lowercase form of the name of the record stored
  under it holds in the state \<^verbatim>\<open>init\<close> leaves, is preserved by get, by create (the
  store's put) and by list, and so holds in every reachable store state.
\<close>

theorem store_key_invariant:
  "keyedByLowerName lowerU (init lowerU)
   \<and> (keyedByLowerName lowerU store \<longrightarrow>
        keyedByLowerName lowerU (snd (getPatientByName lowerU w name store))
      \<and> keyedByLowerName lowerU (snd (createPatient lowerU w d store))
      \<and> keyedByLowerName lowerU (snd (listAllPatients w store)))
   \<and> (reachable lowerU store \<longrightarrow>
        (\<forall>k p. DAList.lookup (patients store) k = Some p \<longrightarrow> k = ToLower lowerU (Name p)))"
proof -
  have "keyedByLowerName lowerU (snd (getPatientByName lowerU w name store))"
    if "keyedByLowerName lowerU store"
    using that by (simp add: getPatientByName_def split: option.split)
  moreover have "keyedByLowerName lowerU (snd (listAllPatients w store))"
    if "keyedByLowerName lowerU store"
    using that by (simp add: listAllPatients_def)
  moreover have "\<forall>k p. DAList.lookup (patients store) k = Some p \<longrightarrow> k = ToLower lowerU (Name p)"
    if "reachable lowerU store"
    using reachable_keyed [OF that] by (simp add: keyedByLowerName_lookup)
  ultimately show ?thesis
    using keyedByLowerName_init keyedByLowerName_createPatient by blast
qed

text \<open>The state after Ada Lovelace is created in the store \<^verbatim>\<open>init\<close> leaves.\<close>

theorem store_key_invariant_witness:
  "reachable id
     (snd (createPatient id (newWriter Map.empty)
       (Decoded \<lparr>Name = ''Ada Lovelace'', DateOfBirth = ''1815-12-10'', Gender = ''Female'',
          Illness = ''None'', Email = ''ada@example.com''\<rparr>)
       (init id)))
   \<and> DAList.lookup
        (patients (snd (createPatient id (newWriter Map.empty)
          (Decoded \<lparr>Name = ''Ada Lovelace'', DateOfBirth = ''1815-12-10'', Gender = ''Female'',
             Illness = ''None'', Email = ''ada@example.com''\<rparr>)
          (init id))))
        ''ada lovelace''
      = Some \<lparr>Name = ''Ada Lovelace'', DateOfBirth = ''1815-12-10'', Gender = ''Female'',
           Illness = ''None'', Email = ''ada@example.com''\<rparr>
   \<and> ''ada lovelace'' = ToLower id ''Ada Lovelace''
   \<and> keyedByLowerName id (init id)
   \<and> keyedByLowerName id
        (snd (createPatient id (newWriter Map.empty)
          (Decoded \<lparr>Name = ''Ada Lovelace'', DateOfBirth = ''1815-12-10'', Gender = ''Female'',
             Illness = ''None'', Email = ''ada@example.com''\<rparr>)
          (init id)))"
proof -
  let ?ada = "\<lparr>Name = ''Ada Lovelace'', DateOfBirth = ''1815-12-10'', Gender = ''Female'',
                Illness = ''None'', Email = ''ada@example.com''\<rparr>"
  let ?s = "snd (createPatient id (newWriter Map.empty) (Decoded ?ada) (init id))"
  have r: "reachable id ?s"
    by (rule reachable.after_create) (rule reachable.started)
  have low: "''ada lovelace'' = ToLower id ''Ada Lovelace''"
    by code_simp
  have l: "DAList.lookup (patients ?s) ''ada lovelace'' = Some ?ada"
    by (simp add: createPatient_def low [symmetric])
  show ?thesis
    using r l low
      store_key_invariant [of id "init id" "newWriter Map.empty" "[]" "Decoded ?ada"]
      store_key_invariant [of id ?s]
    by simp
qed

section \<open>Create: rejection and acceptance\<close>

text \<open>
  C4. When the body does not decode, and when the decoded record has an empty name, date
  of birth or email, create answers 400 and returns the store it was given, entry for
  entry. In every other case it answers 201, writes the record, and the record is the
  value stored under the lowercase form of its name.
\<close>

theorem create_status_and_store:
  "wroteHeader (fst (createPatient lowerU (newWriter h) DecodeError store)) = Some 400
   \<and> snd (createPatient lowerU (newWriter h) DecodeError store) = store
   \<and> (Name p = [] \<or> DateOfBirth p = [] \<or> Email p = [] \<longrightarrow>
        wroteHeader (fst (createPatient lowerU (newWriter h) (Decoded p) store)) = Some 400
      \<and> snd (createPatient lowerU (newWriter h) (Decoded p) store) = store)
   \<and> (Name p \<noteq> [] \<and> DateOfBirth p \<noteq> [] \<and> Email p \<noteq> [] \<longrightarrow>
        wroteHeader (fst (createPatient lowerU (newWriter h) (Decoded p) store)) = Some 201
      \<and> body (fst (createPatient lowerU (newWriter h) (Decoded p) store)) = [JSON (Patient p)]
      \<and> DAList.lookup (patients (snd (createPatient lowerU (newWriter h) (Decoded p) store)))
           (ToLower lowerU (Name p)) = Some p)"
  by (simp add: createPatient_def writer_defs)

text \<open>
  In the store \<^verbatim>\<open>init\<close> leaves: Ada Lovelace without an email is rejected and the store
  stays as it was; with her email she is accepted.
\<close>

theorem create_status_and_store_witness:
  "Email \<lparr>Name = ''Ada Lovelace'', DateOfBirth = ''1815-12-10'', Gender = ''Female'',
           Illness = ''None'', Email = []\<rparr> = []
   \<and> wroteHeader (fst (createPatient id (newWriter Map.empty)
        (Decoded \<lparr>Name = ''Ada Lovelace'', DateOfBirth = ''1815-12-10'', Gender = ''Female'',
           Illness = ''None'', Email = []\<rparr>)
        (init id))) = Some 400
   \<and> snd (createPatient id (newWriter Map.empty)
        (Decoded \<lparr>Name = ''Ada Lovelace'', DateOfBirth = ''1815-12-10'', Gender = ''Female'',
           Illness = ''None'', Email = []\<rparr>)
        (init id)) = init id
   \<and> Name \<lparr>Name = ''Ada Lovelace'', DateOfBirth = ''1815-12-10'', Gender = ''Female'',
          Illness = ''None'', Email = ''ada@example.com''\<rparr> \<noteq> []
   \<and> DateOfBirth \<lparr>Name = ''Ada Lovelace'', DateOfBirth = ''1815-12-10'', Gender = ''Female'',
          Illness = ''None'', Email = ''ada@example.com''\<rparr> \<noteq> []
   \<and> Email \<lparr>Name = ''Ada Lovelace'', DateOfBirth = ''1815-12-10'', Gender = ''Female'',
          Illness = ''None'', Email = ''ada@example.com''\<rparr> \<noteq> []
   \<and> wroteHeader (fst (createPatient id (newWriter Map.empty)
        (Decoded \<lparr>Name = ''Ada Lovelace'', DateOfBirth = ''1815-12-10'', Gender = ''Female'',
           Illness = ''None'', Email = ''ada@example.com''\<rparr>)
        (init id))) = Some 201
   \<and> body (fst (createPatient id (newWriter Map.empty)
        (Decoded \<lparr>Name = ''Ada Lovelace'', DateOfBirth = ''1815-12-10'', Gender = ''Female'',
           Illness = ''None'', Email = ''ada@example.com''\<rparr>)
        (init id)))
      = [JSON (Patient \<lparr>Name = ''Ada Lovelace'', DateOfBirth = ''1815-12-10'',
            Gender = ''Female'', Illness = ''None'', Email = ''ada@example.com''\<rparr>)]"
  using
    create_status_and_store [of id Map.empty "init id"
      "\<lparr>Name = ''Ada Lovelace'', DateOfBirth = ''1815-12-10'', Gender = ''Female'',
        Illness = ''None'', Email = []\<rparr>"]
    create_status_and_store [of id Map.empty "init id"
      "\<lparr>Name = ''Ada Lovelace'', DateOfBirth = ''1815-12-10'', Gender = ''Female'',
        Illness = ''None'', Email = ''ada@example.com''\<rparr>"]
  by simp

section \<open>Get by name: miss and hit\<close>

text \<open>
  C5. When the lowercase form of the name is not a key of the store, get-by-name answers
  404 with the plain-text message \<^verbatim>\<open>Patient not found\<close>; when it is a key, it answers 200
  with the record stored under it.
\<close>

theorem get_by_name_response:
  "(DAList.lookup (patients store) (ToLower lowerU name) = None \<longrightarrow>
      wroteHeader (fst (getPatientByName lowerU (newWriter h) name store)) = Some 404
    \<and> body (fst (getPatientByName lowerU (newWriter h) name store))
        = [PlainText ''Patient not found'']
    \<and> header (fst (getPatientByName lowerU (newWriter h) name store)) ''Content-Type''
        = Some ''text/plain; charset=utf-8'')
   \<and> (\<forall>p. DAList.lookup (patients store) (ToLower lowerU name) = Some p \<longrightarrow>
      wroteHeader (fst (getPatientByName lowerU (newWriter h) name store)) = Some 200
    \<and> body (fst (getPatientByName lowerU (newWriter h) name store)) = [JSON (Patient p)])"
  by (simp add: getPatientByName_def writer_defs)

text \<open>
  In the store \<^verbatim>\<open>init\<close> leaves: nobody is filed under \<^verbatim>\<open>nonexistent\<close>, and
  \<^verbatim>\<open>EMILY LOR\<close> finds the sample Emily Lor.
\<close>

theorem get_by_name_response_witness:
  "DAList.lookup (patients (init id)) (ToLower id ''nonexistent'') = None
   \<and> wroteHeader (fst (getPatientByName id (newWriter Map.empty) ''nonexistent'' (init id)))
       = Some 404
   \<and> body (fst (getPatientByName id (newWriter Map.empty) ''nonexistent'' (init id)))
       = [PlainText ''Patient not found'']
   \<and> DAList.lookup (patients (init id)) (ToLower id ''EMILY LOR'')
       = Some \<lparr>Name = ''Emily Lor'', DateOfBirth = ''1995-02-14'', Gender = ''Female'',
            Illness = ''Migraine'', Email = ''emily.lor@email.com''\<rparr>
   \<and> wroteHeader (fst (getPatientByName id (newWriter Map.empty) ''EMILY LOR'' (init id)))
       = Some 200
   \<and> body (fst (getPatientByName id (newWriter Map.empty) ''EMILY LOR'' (init id)))
       = [JSON (Patient \<lparr>Name = ''Emily Lor'', DateOfBirth = ''1995-02-14'',
            Gender = ''Female'', Illness = ''Migraine'', Email = ''emily.lor@email.com''\<rparr>)]"
proof -
  have miss: "DAList.lookup (patients (init id)) (ToLower id ''nonexistent'') = None"
    by code_simp
  have hit: "DAList.lookup (patients (init id)) (ToLower id ''EMILY LOR'')
       = Some \<lparr>Name = ''Emily Lor'', DateOfBirth = ''1995-02-14'', Gender = ''Female'',
            Illness = ''Migraine'', Email = ''emily.lor@email.com''\<rparr>"
    by code_simp
  show ?thesis
    using miss hit
      get_by_name_response [of "init id" id "''nonexistent''" Map.empty]
      get_by_name_response [of "init id" id "''EMILY LOR''" Map.empty]
    by simp
qed

section \<open>The listing after start-up\<close>

text \<open>
  C6. Called on the store \<^verbatim>\<open>init\<close> leaves, before any create, list answers 200 with
  exactly the four sample records, those of Nobody Knows, Johnson Fake, Michael Chen and
  Emily Lor, each once and no other; their order is left open.
\<close>

theorem list_after_startup:
  "\<exists>ps. body (fst (listAllPatients (newWriter h) (init lowerU))) = [JSON (Patients ps)]
      \<and> wroteHeader (fst (listAllPatients (newWriter h) (init lowerU))) = Some 200
      \<and> mset ps = mset samplePatients
      \<and> mset (map Name ps)
          = {#''Nobody Knows'', ''Johnson Fake'', ''Michael Chen'', ''Emily Lor''#}"
proof -
  have "map snd (DAList.impl_of (patients (init lowerU))) = samplePatients"
    by (simp add: init_entries comp_def)
  moreover have "image_mset Name (mset samplePatients)
      = {#''Nobody Knows'', ''Johnson Fake'', ''Michael Chen'', ''Emily Lor''#}"
    by (simp add: samplePatients_def)
  moreover have "wroteHeader (fst (listAllPatients (newWriter h) (init lowerU))) = Some 200"
    by (simp add: listAllPatients_def writer_defs)
  ultimately show ?thesis
    by (simp add: listAllPatients_body)
qed

section \<open>Frame: the handlers that only read\<close>

text \<open>
  C7. The store is mutated only by create: get-by-name (whether the name is found or
  not), list and health return the store they were given, for every store and every
  request.
\<close>

theorem readers_leave_store_unchanged:
  "snd (getPatientByName lowerU w name store) = store
   \<and> snd (listAllPatients w store) = store
   \<and> snd (healthCheck now w store) = store"
  by (simp add: getPatientByName_def listAllPatients_def healthCheck_def split: option.split)

section \<open>Health\<close>

text \<open>
  The health handler answers 200 with the fixed status string and the clock reading it
  was given, whatever the store holds. That the reading is a well-formed RFC 3339
  timestamp close to the time of the call is a fact about the clock and the time
  library, which this embedding does not hold.
\<close>

lemma healthCheck_response:
  "wroteHeader (fst (healthCheck now (newWriter h) store)) = Some 200
   \<and> body (fst (healthCheck now (newWriter h) store))
       = [JSON (StringMap [''status'' \<mapsto> ''healthy'', ''time'' \<mapsto> now])]
   \<and> fst (healthCheck now (newWriter h) store) = fst (healthCheck now (newWriter h) store')"
  by (simp add: healthCheck_def writer_defs)

section \<open>The required-field check does not trim\<close>

text \<open>
  C10. The required-field check of create compares name, date of birth and email with
  the empty string and nothing more: a record whose name, date of birth and email
  consist of spaces only, and whose gender and illness are empty, is answered 201 and
  stored (under its name, which lowercasing leaves as it is).
\<close>

theorem create_accepts_blank_fields:
  "wroteHeader (fst (createPatient lowerU (newWriter h)
      (Decoded \<lparr>Name = '' '', DateOfBirth = ''  '', Gender = [], Illness = [], Email = '' ''\<rparr>)
      store)) = Some 201
   \<and> body (fst (createPatient lowerU (newWriter h)
      (Decoded \<lparr>Name = '' '', DateOfBirth = ''  '', Gender = [], Illness = [], Email = '' ''\<rparr>)
      store))
     = [JSON (Patient
         \<lparr>Name = '' '', DateOfBirth = ''  '', Gender = [], Illness = [], Email = '' ''\<rparr>)]
   \<and> DAList.lookup (patients (snd (createPatient lowerU (newWriter h)
      (Decoded \<lparr>Name = '' '', DateOfBirth = ''  '', Gender = [], Illness = [], Email = '' ''\<rparr>)
      store))) '' ''
     = Some \<lparr>Name = '' '', DateOfBirth = ''  '', Gender = [], Illness = [], Email = '' ''\<rparr>"
proof -
  have "ToLower lowerU '' '' = '' ''"
    by code_simp
  then show ?thesis
    by (simp add: createPatient_def writer_defs)
qed

end
